theory Spec2Isabelle
  imports Main "HOL-Library.Code_Target_Nat" "HOL-Library.List_Lexorder"
    "HOL-Library.Product_Lexorder"
begin

section \<open>JavaScript strings\<close>

text \<open>
  A JavaScript string is a sequence of UTF-16 code units. A code unit is modelled as a
  natural number below 65536; \<open>ch\<close> gives the code unit of an ASCII character and
  \<open>js\<close> the string of a literal.
\<close>

type_synonym jschar = nat
type_synonym jsstring = "jschar list"

definition ch :: "char \<Rightarrow> jschar" where
  "ch c = of_char c"

definition js :: "string \<Rightarrow> jsstring" where
  "js = map ch"

abbreviation (input) NL :: jschar where "NL \<equiv> 10"
abbreviation (input) SP :: jschar where "SP \<equiv> 32"
abbreviation (input) QUOTE :: jschar where "QUOTE \<equiv> 34"
abbreviation (input) HASH :: jschar where "HASH \<equiv> 35"
abbreviation (input) PLUS :: jschar where "PLUS \<equiv> 43"
abbreviation (input) COMMA :: jschar where "COMMA \<equiv> 44"
abbreviation (input) MINUS :: jschar where "MINUS \<equiv> 45"
abbreviation (input) DOT :: jschar where "DOT \<equiv> 46"
abbreviation (input) SLASH :: jschar where "SLASH \<equiv> 47"
abbreviation (input) COLON :: jschar where "COLON \<equiv> 58"
abbreviation (input) BACKSLASH :: jschar where "BACKSLASH \<equiv> 92"
abbreviation (input) UNDERSCORE :: jschar where "UNDERSCORE \<equiv> 95"
abbreviation (input) BACKTICK :: jschar where "BACKTICK \<equiv> 96"

text \<open>\<open>xs.indexOf(c, from)\<close>: the first index at or after \<open>from\<close>, or -1.\<close>

primrec firstIndex :: "jschar \<Rightarrow> jsstring \<Rightarrow> nat option" where
  "firstIndex c [] = None"
| "firstIndex c (x # xs) = (if x = c then Some 0 else map_option Suc (firstIndex c xs))"

definition indexOf :: "jsstring \<Rightarrow> jschar \<Rightarrow> nat \<Rightarrow> int" where
  "indexOf xs c from =
     (case firstIndex c (drop from xs) of None \<Rightarrow> - 1 | Some k \<Rightarrow> int (from + k))"

text \<open>
  \<open>xs.lastIndexOf(c, p)\<close>: the last index at or before \<open>p\<close>, or -1. A negative
  \<open>p\<close> is clamped to 0 by JavaScript, so index 0 is still inspected.
\<close>

fun lastIndexFrom :: "jschar \<Rightarrow> jsstring \<Rightarrow> nat \<Rightarrow> int" where
  "lastIndexFrom c xs 0 = (if 0 < length xs \<and> xs ! 0 = c then 0 else - 1)"
| "lastIndexFrom c xs (Suc i) =
     (if Suc i < length xs \<and> xs ! Suc i = c then int (Suc i) else lastIndexFrom c xs i)"

definition lastIndexOf :: "jsstring \<Rightarrow> jschar \<Rightarrow> int \<Rightarrow> int" where
  "lastIndexOf xs c p = lastIndexFrom c xs (nat (max p 0))"

text \<open>\<open>xs.slice(a, b)\<close>: a negative index counts from the end of the string.\<close>

definition slice :: "jsstring \<Rightarrow> int \<Rightarrow> int \<Rightarrow> jsstring" where
  "slice xs a b =
     (let n = int (length xs);
          from = (if a < 0 then max (n + a) 0 else min a n);
          to = (if b < 0 then max (n + b) 0 else min b n)
      in take (nat (to - from)) (drop (nat from) xs))"

text \<open>\<open>xs.substring(a, b)\<close>: both indices are clamped, and swapped when \<open>a > b\<close>.\<close>

definition substring :: "jsstring \<Rightarrow> nat \<Rightarrow> nat \<Rightarrow> jsstring" where
  "substring xs a b =
     (let a' = min a (length xs); b' = min b (length xs)
      in take (max a' b' - min a' b') (drop (min a' b') xs))"

definition startsWith :: "jsstring \<Rightarrow> jsstring \<Rightarrow> nat \<Rightarrow> bool" where
  "startsWith xs p i \<longleftrightarrow> take (length p) (drop i xs) = p"

definition endsWith :: "jsstring \<Rightarrow> jschar \<Rightarrow> bool" where
  "endsWith xs c \<longleftrightarrow> xs \<noteq> [] \<and> last xs = c"

fun includes' :: "jsstring \<Rightarrow> jsstring \<Rightarrow> bool" where
  "includes' [] p \<longleftrightarrow> p = []"
| "includes' (x # xs) p \<longleftrightarrow> take (length p) (x # xs) = p \<or> includes' xs p"

text \<open>The code units that \<open>trim\<close> and \<open>parseInt\<close> treat as white space.\<close>

definition isWhiteSpace :: "jschar \<Rightarrow> bool" where
  "isWhiteSpace c \<longleftrightarrow>
     c \<in> set [9, 10, 11, 12, 13, 32, 160, 5760, 8232, 8233, 8239, 8287, 12288, 65279]
     \<or> (8192 \<le> c \<and> c \<le> 8202)"

definition trim :: "jsstring \<Rightarrow> jsstring" where
  "trim xs = rev (dropWhile isWhiteSpace (rev (dropWhile isWhiteSpace xs)))"

fun split :: "jschar \<Rightarrow> jsstring \<Rightarrow> jsstring list" where
  "split c [] = [[]]"
| "split c (x # xs) =
     (if x = c then [] # split c xs
      else (case split c xs of [] \<Rightarrow> [[x]] | l # ls \<Rightarrow> (x # l) # ls))"

fun join :: "jsstring \<Rightarrow> jsstring list \<Rightarrow> jsstring" where
  "join sep [] = []"
| "join sep [x] = x"
| "join sep (x # y # ys) = x @ sep @ join sep (y # ys)"

section \<open>The parser's cursor\<close>

text \<open>The fields of \<open>class Parser\<close>: the text, the offset into it and the line counter.\<close>

record pstate =
  data :: jsstring
  pos :: nat
  line :: nat

text \<open>
  The messages of the errors the parser throws. \<open>throw m s\<close> is
  \<open>throw this.error(m)\<close> in state \<open>s\<close>: the error's \<open>line\<close> is \<open>line s\<close>, and the
  state is kept because \<open>hasKeyValuePair\<close> catches the error and goes on from it.
  \<open>OutOfFuel\<close> is not a message of the program: it marks a run of the model whose
  recursion bound was too small.
\<close>

datatype message =
    EmptyDocument
  | UnsupportedVersion jsstring
  | EmptyDoc
  | RootIndented
  | RootDoubleColon
  | RootColon
  | UnknownDocumentType
  | ContentAfterRoot string
  | BadIndent nat nat
  | ExpectedKey "jschar option"
  | DuplicateKey jsstring
  | AmbiguousEmptyVector
  | ExpectedAKey
  | ExpectedIndicator
  | ExpectedColonInlineDict
  | UnexpectedEndOfInput
  | InvalidAfterPlus
  | InvalidAfterMinus
  | UnexpectedCharacter jschar
  | NewlineInString
  | IncompleteEscape
  | IncompleteUnicodeEscape
  | InvalidUnicodeEscape jsstring
  | InvalidEscape jschar
  | UnclosedString
  | ClosingDelimiterIndent nat
  | UnclosedMultilineString
  | DigitsRequiredAfterPrefix
  | TrailingSpaces
  | CommentNeedsSpaceBefore
  | HashNeedsSpaceAfter
  | UnexpectedContentAtEndOfLine
  | ExpectedSingleSpace string
  | FoundMultipleSpaces string
  | ExpectedComma
  | SpaceBeforeComma
  | OutOfFuel

type_synonym 'a result = "(message \<times> pstate) + ('a \<times> pstate)"

definition throw :: "message \<Rightarrow> pstate \<Rightarrow> 'a result" where
  "throw m s = Inl (m, s)"

definition charAt :: "pstate \<Rightarrow> nat \<Rightarrow> jschar option" where
  "charAt s i = (if i < length (data s) then Some (data s ! i) else None)"

definition cur :: "pstate \<Rightarrow> jschar option" where
  "cur s = charAt s (pos s)"

definition done' :: "pstate \<Rightarrow> bool" where
  "done' s \<longleftrightarrow> pos s \<ge> length (data s)"

definition advance :: "nat \<Rightarrow> pstate \<Rightarrow> pstate" where
  "advance n s = s\<lparr>pos := pos s + n\<rparr>"

function skipSpaces :: "pstate \<Rightarrow> pstate" where
  "skipSpaces s = (if \<not> done' s \<and> cur s = Some SP then skipSpaces (advance 1 s) else s)"
  by pat_completeness auto
termination
  by (relation "measure (\<lambda>s. length (data s) - pos s)") (auto simp: done'_def advance_def)

declare skipSpaces.simps [simp del]

definition peekString :: "jsstring \<Rightarrow> pstate \<Rightarrow> bool" where
  "peekString p s \<longleftrightarrow> pos s + length p \<le> length (data s) \<and> startsWith (data s) p (pos s)"

definition peekChar :: "pstate \<Rightarrow> nat \<Rightarrow> jschar" where
  "peekChar s i = (if i < length (data s) then data s ! i else 0)"

definition isDigit :: "jschar \<Rightarrow> bool" where
  "isDigit c \<longleftrightarrow> ch CHR ''0'' \<le> c \<and> c \<le> ch CHR ''9''"

definition isAlpha :: "jschar \<Rightarrow> bool" where
  "isAlpha c \<longleftrightarrow> (ch CHR ''a'' \<le> c \<and> c \<le> ch CHR ''z'') \<or> (ch CHR ''A'' \<le> c \<and> c \<le> ch CHR ''Z'')"

definition isAlphaNum :: "jschar \<Rightarrow> bool" where
  "isAlphaNum c \<longleftrightarrow> isAlpha c \<or> isDigit c"

definition isHex :: "jschar \<Rightarrow> bool" where
  "isHex c \<longleftrightarrow> isDigit c \<or> (ch CHR ''a'' \<le> c \<and> c \<le> ch CHR ''f'') \<or> (ch CHR ''A'' \<le> c \<and> c \<le> ch CHR ''F'')"

definition isSpaceString :: "jsstring \<Rightarrow> bool" where
  "isSpaceString xs \<longleftrightarrow> trim xs = []"

definition isKeyStart :: "pstate \<Rightarrow> bool" where
  "isKeyStart s \<longleftrightarrow> \<not> done' s \<and> (cur s = Some QUOTE \<or> (case cur s of None \<Rightarrow> False | Some c \<Rightarrow> isAlpha c))"

definition lineStart :: "pstate \<Rightarrow> nat" where
  "lineStart s =
     (let start = pos s in
      if start > 0 \<and> start \<le> length (data s) \<and> charAt s (start - 1) = Some NL then start
      else nat (lastIndexOf (data s) NL (int start - 1) + 1))"

function getCurIndent_loop :: "pstate \<Rightarrow> nat \<Rightarrow> nat \<Rightarrow> nat" where
  "getCurIndent_loop s start indent =
     (if start + indent < length (data s) \<and> charAt s (start + indent) = Some SP
      then getCurIndent_loop s start (indent + 1) else indent)"
  by pat_completeness auto
termination
  by (relation "measure (\<lambda>(s, l, i). length (data s) - (l + i))") auto

declare getCurIndent_loop.simps [simp del]

definition getCurIndent :: "pstate \<Rightarrow> nat" where
  "getCurIndent s = getCurIndent_loop s (lineStart s) 0"

section \<open>Layout: the end of a line, blank lines, separators\<close>

text \<open>
  \<open>consumeLine\<close>: after optional spaces the line must end or carry a comment; the rest of
  the line is checked for a trailing space and the cursor moves to the next line.
\<close>

definition consumeLine_rest :: "pstate \<Rightarrow> unit result" where
  "consumeLine_rest s =
     (let remLine = slice (data s) (int (pos s)) (indexOf (data s) NL (pos s)) in
      if endsWith remLine SP \<and> length remLine > 0 then throw TrailingSpaces s
      else
        let nextNewline = indexOf (data s) NL (pos s) in
        if nextNewline \<noteq> - 1
        then Inr ((), s\<lparr>pos := nat (nextNewline + 1), line := line s + 1\<rparr>)
        else Inr ((), s\<lparr>pos := length (data s)\<rparr>))"

definition consumeLine :: "pstate \<Rightarrow> unit result" where
  "consumeLine s0 =
     (let contentStart = pos s0; s = skipSpaces s0 in
      if done' s \<or> cur s = Some NL then
        (if pos s > contentStart then throw TrailingSpaces s else consumeLine_rest s)
      else if cur s = Some HASH then
        (if pos s = contentStart \<and> int (getCurIndent s) \<noteq> int (pos s) - int (lineStart s)
         then throw CommentNeedsSpaceBefore s
         else
           let s' = s\<lparr>pos := pos s + 1\<rparr> in
           if \<not> done' s' \<and> cur s' \<noteq> Some SP \<and> cur s' \<noteq> Some NL
           then throw HashNeedsSpaceAfter s'
           else consumeLine_rest s')
      else throw UnexpectedContentAtEndOfLine s)"

text \<open>\<open>consumeLineContent\<close>: the rest of the line as it is, for multiline strings.\<close>

definition consumeLineContent :: "pstate \<Rightarrow> jsstring \<times> pstate" where
  "consumeLineContent s =
     (let start = pos s; nextNewline = indexOf (data s) NL (pos s) in
      if nextNewline = - 1
      then (drop start (data s), s\<lparr>pos := length (data s)\<rparr>)
      else (substring (data s) start (nat nextNewline),
            s\<lparr>pos := nat (nextNewline + 1), line := line s + 1\<rparr>))"

lemma firstIndex_less: "firstIndex c xs = Some k \<Longrightarrow> k < length xs"
  by (induction xs arbitrary: k) (auto split: if_splits)

lemma indexOf_bounds:
  "indexOf xs c i \<noteq> - 1 \<Longrightarrow> int i \<le> indexOf xs c i \<and> indexOf xs c i < int (length xs)"
  by (auto simp: indexOf_def split: option.splits dest!: firstIndex_less)

lemma skipSpaces_frame:
  "data (skipSpaces s) = data s \<and> line (skipSpaces s) = line s \<and> pos s \<le> pos (skipSpaces s)"
proof (induction s rule: skipSpaces.induct)
  case (1 s)
  show ?case
  proof (cases "\<not> done' s \<and> cur s = Some SP")
    case True
    with 1 show ?thesis
      by (subst (1 2 3) skipSpaces.simps) (simp add: advance_def)
  next
    case False
    then show ?thesis
      by (subst (1 2 3) skipSpaces.simps) auto
  qed
qed

lemma consumeLine_rest_progress:
  assumes "consumeLine_rest s = Inr (u, s')"
  shows "data s' = data s \<and> pos s' \<le> length (data s)
    \<and> (pos s < length (data s) \<longrightarrow> pos s < pos s')
    \<and> (length (data s) \<le> pos s \<longrightarrow> pos s' = length (data s))"
  using assms indexOf_bounds [of "data s" NL "pos s"]
  unfolding consumeLine_rest_def Let_def throw_def
  by (auto split: if_splits)

lemma consumeLine_progress:
  assumes "consumeLine s = Inr (u, s')"
  shows "data s' = data s \<and> pos s' \<le> length (data s)
    \<and> (pos s < length (data s) \<longrightarrow> pos s < pos s')"
proof -
  let ?t = "skipSpaces s"
  have t: "data ?t = data s" "pos s \<le> pos ?t"
    using skipSpaces_frame [of s] by auto
  consider (a) "consumeLine_rest ?t = Inr (u, s')"
    | (b) "consumeLine_rest (?t\<lparr>pos := pos ?t + 1\<rparr>) = Inr (u, s')"
    using assms unfolding consumeLine_def Let_def throw_def
    by (auto split: if_splits)
  then show ?thesis
  proof cases
    case a
    from consumeLine_rest_progress [OF a] t show ?thesis by auto
  next
    case b
    from consumeLine_rest_progress [OF b] t show ?thesis by auto
  qed
qed

text \<open>\<open>skipBlankLines\<close>: blank and comment lines are skipped; the cursor stops at content.\<close>

function skipBlankLines :: "pstate \<Rightarrow> unit result" where
  "skipBlankLines s =
     (if done' s then Inr ((), s)
      else
        let start = pos s; s1 = skipSpaces s in
        if done' s1 then (if pos s1 > start then throw TrailingSpaces s1 else Inr ((), s1))
        else if cur s1 \<noteq> Some NL \<and> cur s1 \<noteq> Some HASH then Inr ((), s1)
        else if cur s1 = Some NL \<and> pos s1 > start then throw TrailingSpaces s1
        else
          (case consumeLine (s1\<lparr>pos := start\<rparr>) of
             Inl e \<Rightarrow> Inl e
           | Inr (u, s2) \<Rightarrow> skipBlankLines s2))"
  by pat_completeness auto
termination
proof (relation "measure (\<lambda>s. length (data s) - pos s)", goal_cases)
  case 1
  show ?case by simp
next
  case (2 s start s1 r u s2)
  from consumeLine_progress [of "s1\<lparr>pos := start\<rparr>" u s2] 2 skipSpaces_frame [of s]
  show ?case by (auto simp: done'_def)
qed

declare skipBlankLines.simps [simp del]

text \<open>\<open>assertSpace\<close>: exactly one space at the cursor.\<close>

definition assertSpace :: "string \<Rightarrow> pstate \<Rightarrow> unit result" where
  "assertSpace context s =
     (if done' s \<or> cur s \<noteq> Some SP then throw (ExpectedSingleSpace context) s
      else
        let s' = advance 1 s in
        if \<not> done' s' \<and> cur s' = Some SP then throw (FoundMultipleSpaces context) s'
        else Inr ((), s'))"

definition expectComma :: "pstate \<Rightarrow> unit result" where
  "expectComma s0 =
     (let s = skipSpaces s0 in
      if done' s \<or> cur s \<noteq> Some COMMA then throw ExpectedComma s
      else if pos s > 0 \<and> charAt s (pos s - 1) = Some SP then throw SpaceBeforeComma s
      else assertSpace ''after comma'' (advance 1 s))"

section \<open>Values\<close>

text \<open>
  A JavaScript number is a double. The model keeps an integer literal's mathematical
  value (\<open>Integer\<close>; a double holds it exactly up to \<open>2^53\<close>, the rounding above that is
  not modelled) and, for a literal with a fraction or an exponent, the text handed to
  \<open>parseFloat\<close> (\<open>Double\<close>; its conversion is not computed).
\<close>

datatype number = Integer int | Double jsstring | NaN | PosInfinity | NegInfinity

text \<open>
  An object is its own properties in creation order, and whether its prototype is
  \<open>null\<close> (it is \<open>Object.prototype\<close> otherwise).
\<close>

datatype jsvalue =
    JNull
  | JBool bool
  | JNumber number
  | JString jsstring
  | JArray "jsvalue list"
  | JObject bool "(jsstring \<times> jsvalue) list"

definition Object_prototype_keys :: "jsstring list" where
  "Object_prototype_keys =
     map js [''constructor'', ''__defineGetter__'', ''__defineSetter__'', ''hasOwnProperty'',
       ''__lookupGetter__'', ''__lookupSetter__'', ''isPrototypeOf'', ''propertyIsEnumerable'',
       ''toString'', ''valueOf'', ''__proto__'', ''toLocaleString'']"

text \<open>\<open>key in obj\<close>: an own property or one inherited from the prototype.\<close>

definition hasProperty :: "bool \<Rightarrow> (jsstring \<times> jsvalue) list \<Rightarrow> jsstring \<Rightarrow> bool" where
  "hasProperty nullProto props key \<longleftrightarrow>
     key \<in> set (map fst props) \<or> (key \<in> set Object_prototype_keys \<and> \<not> nullProto)"

fun updateProperty :: "(jsstring \<times> jsvalue) list \<Rightarrow> jsstring \<Rightarrow> jsvalue \<Rightarrow> (jsstring \<times> jsvalue) list" where
  "updateProperty [] k v = [(k, v)]"
| "updateProperty ((k', v') # ps) k v =
     (if k' = k then (k, v) # ps else (k', v') # updateProperty ps k v)"

text \<open>
  \<open>obj[key] = v\<close>. An own property is overwritten in place and a new one is appended.
  \<open>__proto__\<close> of an object that still has its prototype is the inherited setter: it
  creates no property, sets the prototype to \<open>null\<close> for \<open>v = null\<close> and does nothing
  for another scalar (the parser assigns scalars only where this can happen).
\<close>

definition setProperty :: "jsvalue \<Rightarrow> jsstring \<Rightarrow> jsvalue \<Rightarrow> jsvalue" where
  "setProperty obj key v =
     (case obj of
        JObject nullProto props \<Rightarrow>
          if key = js ''__proto__'' \<and> \<not> nullProto
          then (if v = JNull then JObject True props else JObject nullProto props)
          else JObject nullProto (updateProperty props key v)
      | _ \<Rightarrow> obj)"

section \<open>Literals\<close>

definition digitValue :: "jschar \<Rightarrow> nat option" where
  "digitValue c =
     (if ch CHR ''0'' \<le> c \<and> c \<le> ch CHR ''9'' then Some (c - ch CHR ''0'')
      else if ch CHR ''a'' \<le> c \<and> c \<le> ch CHR ''z'' then Some (c - ch CHR ''a'' + 10)
      else if ch CHR ''A'' \<le> c \<and> c \<le> ch CHR ''Z'' then Some (c - ch CHR ''A'' + 10)
      else None)"

definition isRadixDigit :: "nat \<Rightarrow> jschar \<Rightarrow> bool" where
  "isRadixDigit radix c = (case digitValue c of None \<Rightarrow> False | Some d \<Rightarrow> d < radix)"

definition digitsValue :: "nat \<Rightarrow> jsstring \<Rightarrow> nat" where
  "digitsValue radix ds =
     foldl (\<lambda>acc c. acc * radix + (case digitValue c of None \<Rightarrow> 0 | Some d \<Rightarrow> d)) 0 ds"

text \<open>
  \<open>parseInt(str, radix)\<close> for a radix from 2 to 36: leading white space is skipped, a
  sign is read, for radix 16 a prefix \<open>0x\<close> or \<open>0X\<close> is dropped, and the longest run
  of digits of the radix is converted; whatever follows it is ignored. \<open>None\<close> is
  \<open>NaN\<close>: there was no digit.
\<close>

definition parseInt :: "jsstring \<Rightarrow> nat \<Rightarrow> int option" where
  "parseInt str radix =
     (let s1 = dropWhile isWhiteSpace str;
          sign = (if take 1 s1 = [MINUS] then - 1 else (1 :: int));
          s2 = (if take 1 s1 = [MINUS] \<or> take 1 s1 = [PLUS] then drop 1 s1 else s1);
          s3 = (if radix = 16 \<and> (take 2 s2 = js ''0x'' \<or> take 2 s2 = js ''0X'') then drop 2 s2 else s2);
          digits = takeWhile (isRadixDigit radix) s3
      in if digits = [] then None else Some (sign * int (digitsValue radix digits)))"

text \<open>\<open>String.fromCharCode(code)\<close>: the code unit \<open>code mod 2^16\<close>.\<close>

definition String_fromCharCode :: "int \<Rightarrow> jschar" where
  "String_fromCharCode code = nat (code mod 65536)"

definition ESCAPE_MAP :: "jschar \<Rightarrow> jschar option" where
  "ESCAPE_MAP esc =
     (if esc = QUOTE then Some QUOTE
      else if esc = BACKSLASH then Some BACKSLASH
      else if esc = SLASH then Some SLASH
      else if esc = ch CHR ''n'' then Some NL
      else if esc = ch CHR ''t'' then Some 9
      else if esc = ch CHR ''r'' then Some 13
      else if esc = ch CHR ''b'' then Some 8
      else if esc = ch CHR ''f'' then Some 12
      else None)"

text \<open>\<open>parseString\<close>: a quoted string with its escape sequences.\<close>

function parseString_loop :: "jsstring \<Rightarrow> pstate \<Rightarrow> jsstring result" where
  "parseString_loop result s =
     (if done' s then throw UnclosedString s
      else
        let c = data s ! pos s in
        if c = QUOTE then Inr (result, advance 1 s)
        else if c = NL then throw NewlineInString s
        else if c = BACKSLASH then
          (let s1 = advance 1 s in
           if done' s1 then throw IncompleteEscape s1
           else
             let esc = data s1 ! pos s1 in
             case ESCAPE_MAP esc of
               Some r \<Rightarrow> parseString_loop (result @ [r]) (advance 1 s1)
             | None \<Rightarrow>
                 if esc = ch CHR ''u'' then
                   (if pos s1 + 4 \<ge> length (data s1) then throw IncompleteUnicodeEscape s1
                    else
                      let hex = substring (data s1) (pos s1 + 1) (pos s1 + 5) in
                      case parseInt hex 16 of
                        None \<Rightarrow> throw (InvalidUnicodeEscape hex) s1
                      | Some code \<Rightarrow>
                          parseString_loop (result @ [String_fromCharCode code])
                            (advance 1 (advance 4 s1)))
                 else throw (InvalidEscape esc) s1)
        else parseString_loop (result @ [c]) (advance 1 s))"
  by pat_completeness auto
termination
  by (relation "measure (\<lambda>(r, s). length (data s) - pos s)") (auto simp: done'_def advance_def)

declare parseString_loop.simps [simp del]

definition parseString :: "pstate \<Rightarrow> jsstring result" where
  "parseString s = parseString_loop [] (advance 1 s)"

text \<open>\<open>parseKey\<close>: a quoted string, or a run of letters, digits, \<open>-\<close> and \<open>_\<close>.\<close>

function parseKey_loop :: "pstate \<Rightarrow> pstate" where
  "parseKey_loop s =
     (if \<not> done' s \<and> (isAlphaNum (data s ! pos s) \<or> data s ! pos s = MINUS
            \<or> data s ! pos s = UNDERSCORE)
      then parseKey_loop (s\<lparr>pos := pos s + 1\<rparr>) else s)"
  by pat_completeness auto
termination
  by (relation "measure (\<lambda>s. length (data s) - pos s)") (auto simp: done'_def)

declare parseKey_loop.simps [simp del]

definition parseKey :: "pstate \<Rightarrow> jsstring result" where
  "parseKey s0 =
     (let s = skipSpaces s0 in
      if peekChar s (pos s) = QUOTE then parseString s
      else
        let start = pos s; s' = parseKey_loop s in
        if pos s' = start then throw ExpectedAKey s'
        else Inr (substring (data s') start (pos s'), s'))"

datatype indicator = Colon | DoubleColon

definition parseIndicator :: "pstate \<Rightarrow> indicator result" where
  "parseIndicator s =
     (if done' s \<or> cur s \<noteq> Some COLON then throw ExpectedIndicator s
      else
        let s1 = advance 1 s in
        if \<not> done' s1 \<and> cur s1 = Some COLON then Inr (DoubleColon, advance 1 s1)
        else Inr (Colon, s1))"

text \<open>\<open>parseBase\<close>: the digits after \<open>0x\<close>, \<open>0o\<close> or \<open>0b\<close>.\<close>

definition validators :: "nat \<Rightarrow> jschar \<Rightarrow> bool" where
  "validators base c =
     (if base = 16 then isHex c
      else if base = 8 then ch CHR ''0'' \<le> c \<and> c \<le> ch CHR ''7''
      else if base = 2 then c = ch CHR ''0'' \<or> c = ch CHR ''1''
      else False)"

function parseBase_loop :: "nat \<Rightarrow> pstate \<Rightarrow> pstate" where
  "parseBase_loop base s =
     (if \<not> done' s \<and> validators base (data s ! pos s)
      then parseBase_loop base (advance 1 s) else s)"
  by pat_completeness auto
termination
  by (relation "measure (\<lambda>(b, s). length (data s) - pos s)") (auto simp: done'_def advance_def)

declare parseBase_loop.simps [simp del]

definition signed :: "int \<Rightarrow> int option \<Rightarrow> number" where
  "signed sign v = (case v of None \<Rightarrow> NaN | Some i \<Rightarrow> Integer (sign * i))"

definition parseBase :: "nat \<Rightarrow> nat \<Rightarrow> jsstring \<Rightarrow> pstate \<Rightarrow> jsvalue result" where
  "parseBase start base prefix s0 =
     (let s1 = advance (length prefix) s0; numStart = pos s1; s = parseBase_loop base s1 in
      if pos s = numStart then throw DigitsRequiredAfterPrefix s
      else
        let sign = (if charAt s start = Some MINUS then - 1 else 1);
            numStr = filter (\<lambda>c. c \<noteq> UNDERSCORE) (substring (data s) numStart (pos s))
        in Inr (JNumber (signed sign (parseInt numStr base)), s))"

definition NUMBER_BASE_PREFIXES :: "(jsstring \<times> nat) list" where
  "NUMBER_BASE_PREFIXES = [(js ''0x'', 16), (js ''0o'', 8), (js ''0b'', 2)]"

function parseNumber_loop :: "bool \<Rightarrow> pstate \<Rightarrow> bool \<times> pstate" where
  "parseNumber_loop isFloat s =
     (if done' s then (isFloat, s)
      else
        let c = data s ! pos s in
        if isDigit c \<or> c = UNDERSCORE then parseNumber_loop isFloat (advance 1 s)
        else if c = DOT then parseNumber_loop True (advance 1 s)
        else if c = ch CHR ''e'' \<or> c = ch CHR ''E'' then
          (let s1 = advance 1 s in
           parseNumber_loop True
             (if peekChar s1 (pos s1) = PLUS \<or> peekChar s1 (pos s1) = MINUS
              then advance 1 s1 else s1))
        else (isFloat, s))"
  by pat_completeness auto
termination
  by (relation "measure (\<lambda>(f, s). length (data s) - pos s)") (auto simp: done'_def advance_def)

declare parseNumber_loop.simps [simp del]

definition parseNumber :: "pstate \<Rightarrow> jsvalue result" where
  "parseNumber s0 =
     (let start = pos s0; c = peekChar s0 (pos s0);
          s = (if c = PLUS \<or> c = MINUS then advance 1 s0 else s0)
      in
      case find (\<lambda>(prefix, base). peekString prefix s) NUMBER_BASE_PREFIXES of
        Some (prefix, base) \<Rightarrow> parseBase start base prefix s
      | None \<Rightarrow>
          (case parseNumber_loop False s of
             (isFloat, s') \<Rightarrow>
               let numStr = filter (\<lambda>c. c \<noteq> UNDERSCORE) (substring (data s') start (pos s'))
               in Inr (JNumber (if isFloat then Double numStr else signed 1 (parseInt numStr 10)), s')))"

text \<open>\<open>parseMultilineString\<close>: the lines up to the closing delimiter.\<close>

definition processLine :: "bool \<Rightarrow> nat \<Rightarrow> jsstring \<Rightarrow> jsstring" where
  "processLine preserveSpaces keyIndent content =
     (if preserveSpaces then
        (let reqIndent = keyIndent + 2 in
         if length content \<ge> reqIndent \<and> isSpaceString (substring content 0 reqIndent)
         then drop reqIndent content else content)
      else trim content)"

lemma consumeLineContent_progress:
  assumes "consumeLineContent s = (c, s')" and "pos s < length (data s)"
  shows "data s' = data s \<and> pos s < pos s' \<and> pos s' \<le> length (data s)"
  using assms indexOf_bounds [of "data s" NL "pos s"]
  unfolding consumeLineContent_def Let_def
  by (auto split: if_splits)

function parseMultilineString_loop ::
  "jsstring \<Rightarrow> nat \<Rightarrow> bool \<Rightarrow> jsstring list \<Rightarrow> pstate \<Rightarrow> jsstring result" where
  "parseMultilineString_loop delim keyIndent preserveSpaces lines s =
     (if done' s then throw UnclosedMultilineString s
      else
        let lineStartPos = pos s; s1 = skipSpaces s; lineIndent = pos s1 - lineStartPos in
        if peekString delim s1 then
          (if lineIndent \<noteq> keyIndent then throw (ClosingDelimiterIndent keyIndent) s1
           else
             case consumeLine (advance 3 s1) of
               Inl e \<Rightarrow> Inl e
             | Inr (u, s2) \<Rightarrow> Inr (join [NL] lines, s2))
        else
          (case consumeLineContent (s1\<lparr>pos := lineStartPos\<rparr>) of
             (lineContent, s2) \<Rightarrow>
               parseMultilineString_loop delim keyIndent preserveSpaces
                 (lines @ [processLine preserveSpaces keyIndent lineContent]) s2))"
  by pat_completeness auto
termination
proof (relation "measure (\<lambda>(d, k, p, l, s). length (data s) - pos s)", goal_cases)
  case 1
  show ?case by simp
next
  case (2 delim keyIndent preserveSpaces lines s lineStartPos s1 lineIndent lineContent s2)
  from consumeLineContent_progress [of "s1\<lparr>pos := lineStartPos\<rparr>" lineContent s2] 2
    skipSpaces_frame [of s]
  show ?case by (auto simp: done'_def)
qed

declare parseMultilineString_loop.simps [simp del]

definition parseMultilineString :: "nat \<Rightarrow> bool \<Rightarrow> pstate \<Rightarrow> jsstring result" where
  "parseMultilineString keyIndent preserveSpaces s =
     (let delim = substring (data s) (pos s) (pos s + 3) in
      case consumeLine (advance 3 s) of
        Inl e \<Rightarrow> Inl e
      | Inr (u, s1) \<Rightarrow> parseMultilineString_loop delim keyIndent preserveSpaces [] s1)"

text \<open>\<open>parseValue\<close>: a scalar.\<close>

definition SPECIAL_VALUES :: "(jsstring \<times> jsvalue) list" where
  "SPECIAL_VALUES =
     [(js ''true'', JBool True), (js ''false'', JBool False), (js ''null'', JNull),
      (js ''nan'', JNumber NaN), (js ''inf'', JNumber PosInfinity)]"

definition mapValue :: "('a \<Rightarrow> 'b) \<Rightarrow> 'a result \<Rightarrow> 'b result" where
  "mapValue f r = (case r of Inl e \<Rightarrow> Inl e | Inr (x, s) \<Rightarrow> Inr (f x, s))"

definition parseValue :: "nat \<Rightarrow> pstate \<Rightarrow> jsvalue result" where
  "parseValue keyIndent s =
     (if done' s then throw UnexpectedEndOfInput s
      else
        let c = data s ! pos s in
        if c = QUOTE then
          (if peekString (js ''\"\"\"'') s
           then mapValue JString (parseMultilineString keyIndent False s)
           else mapValue JString (parseString s))
        else if c = BACKTICK \<and> peekString (js ''```'') s then
          mapValue JString (parseMultilineString keyIndent True s)
        else
          case find (\<lambda>(str, v). peekString str s) SPECIAL_VALUES of
            Some (str, v) \<Rightarrow> Inr (v, advance (length str) s)
          | None \<Rightarrow>
              if c = PLUS then
                (let s1 = advance 1 s in
                 if peekString (js ''inf'') s1 then Inr (JNumber PosInfinity, advance 3 s1)
                 else if isDigit (peekChar s1 (pos s1)) then parseNumber (s1\<lparr>pos := pos s1 - 1\<rparr>)
                 else throw InvalidAfterPlus s1)
              else if c = MINUS then
                (let s1 = advance 1 s in
                 if peekString (js ''inf'') s1 then Inr (JNumber NegInfinity, advance 3 s1)
                 else if isDigit (peekChar s1 (pos s1)) then parseNumber (s1\<lparr>pos := pos s1 - 1\<rparr>)
                 else throw InvalidAfterMinus s1)
              else if isDigit c then parseNumber s
              else throw (UnexpectedCharacter c) s)"

section \<open>Lookahead\<close>

text \<open>
  Each lookahead method returns its answer and the state it leaves. \<open>hasKeyValuePair\<close>
  saves the offset, tries \<open>parseKey\<close> and, in its \<open>finally\<close>, puts the offset back
  into the state that \<open>parseKey\<close> or its error left.
\<close>

definition hasKeyValuePair :: "pstate \<Rightarrow> bool \<times> pstate" where
  "hasKeyValuePair s =
     (let savedPos = pos s in
      case parseKey s of
        Inr (key, s') \<Rightarrow> (\<not> done' s' \<and> cur s' = Some COLON, s'\<lparr>pos := savedPos\<rparr>)
      | Inl (e, s') \<Rightarrow> (False, s'\<lparr>pos := savedPos\<rparr>))"

text \<open>
  \<open>Array.from(str)\<close> iterates by code point: a high surrogate followed by a low one is
  a single element.
\<close>

fun Array_from :: "jsstring \<Rightarrow> jsstring list" where
  "Array_from [] = []"
| "Array_from [x] = [[x]]"
| "Array_from (x # y # r) =
     (if 55296 \<le> x \<and> x \<le> 56319 \<and> 56320 \<le> y \<and> y \<le> 57343
      then [x, y] # Array_from r else [x] # Array_from (y # r))"

text \<open>\<open>xs.some(f)\<close>, where \<open>f\<close> takes the element and its index.\<close>

fun some_from :: "('a \<Rightarrow> nat \<Rightarrow> bool) \<Rightarrow> 'a list \<Rightarrow> nat \<Rightarrow> bool" where
  "some_from f [] i \<longleftrightarrow> False"
| "some_from f (x # xs) i \<longleftrightarrow> f x i \<or> some_from f xs (Suc i)"

definition hasInlineDict :: "pstate \<Rightarrow> bool \<times> pstate" where
  "hasInlineDict s =
     (some_from
        (\<lambda>char i.
           let actualPos = pos s + i in
           if char = [NL] \<or> char = [HASH] then False
           else char = [COLON]
             \<and> (actualPos + 1 \<ge> length (data s) \<or> charAt s (actualPos + 1) \<noteq> Some COLON))
        (Array_from (slice (data s) (int (pos s)) (int (length (data s))))) 0,
      s)"

definition hasInlineListAtRoot :: "pstate \<Rightarrow> bool \<times> pstate" where
  "hasInlineListAtRoot s =
     (let line' = slice (data s) (int (pos s)) (indexOf (data s) NL (pos s));
          commentIdx = indexOf line' HASH 0;
          content = (if commentIdx \<ge> 0 then slice line' 0 commentIdx else line')
      in (COMMA \<in> set content \<and> COLON \<notin> set content, s))"

definition hasInlineDictAtRoot :: "pstate \<Rightarrow> bool \<times> pstate" where
  "hasInlineDictAtRoot s =
     (let len = int (length (data s));
          lineEnd = indexOf (data s) NL (pos s);
          commentIdx = indexOf (data s) HASH (pos s);
          end' = min (if lineEnd = - 1 then len else lineEnd)
                     (if commentIdx = - 1 then len else commentIdx);
          line' = slice (data s) (int (pos s)) end';
          hasColon = (COLON \<in> set line' \<and> \<not> includes' line' (js ''::''));
          hasComma = (COMMA \<in> set line')
      in
      if \<not> (hasColon \<and> hasComma) then (False, s)
      else
        let remContent =
              list_ex (\<lambda>l. let trimmed = trim l in trimmed \<noteq> [] \<and> take 1 trimmed \<noteq> [HASH])
                (drop 1 (split NL (slice (data s) (if lineEnd = - 1 then len else lineEnd) len)))
        in (\<not> remContent, s))"

section \<open>Inline vectors\<close>

datatype TYPES =
  INLINE_DICT | MULTILINE_DICT | EMPTY_LIST | EMPTY_DICT | MULTILINE_LIST | INLINE_LIST | SCALAR

text \<open>
  Whether the loop of \<open>parseInlineVectorContents\<close> goes on after an element: past the
  spaces there must be a comma, else the loop is left (\<open>break\<close>) with the cursor on the
  first space.
\<close>

function nextPos_loop :: "pstate \<Rightarrow> nat \<Rightarrow> nat" where
  "nextPos_loop s nextPos =
     (if nextPos < length (data s) \<and> charAt s nextPos = Some SP
      then nextPos_loop s (nextPos + 1) else nextPos)"
  by pat_completeness auto
termination
  by (relation "measure (\<lambda>(s, n). length (data s) - n)") auto

declare nextPos_loop.simps [simp del]

definition push :: "jsvalue \<Rightarrow> jsvalue \<Rightarrow> jsvalue" where
  "push arr v = (case arr of JArray xs \<Rightarrow> JArray (xs @ [v]) | _ \<Rightarrow> arr)"

text \<open>
  The loops of the parser that call each other take a bound on the number of nested
  calls and iterations still allowed; \<open>parse\<close> starts them with a bound larger than the
  length of the text.
\<close>

fun parseInlineVectorContents_loop ::
  "nat \<Rightarrow> TYPES \<Rightarrow> jsvalue \<Rightarrow> bool \<Rightarrow> pstate \<Rightarrow> jsvalue result" where
  "parseInlineVectorContents_loop 0 type result isFirst s = throw OutOfFuel s"
| "parseInlineVectorContents_loop (Suc n) type result isFirst s =
     (if \<not> done' s \<and> cur s \<noteq> Some NL \<and> cur s \<noteq> Some HASH then
        (case (if \<not> isFirst then expectComma s else Inr ((), s)) of
           Inl e \<Rightarrow> Inl e
         | Inr (u, s1) \<Rightarrow>
             (case
                (if type = INLINE_DICT then
                   (case parseKey s1 of
                      Inl e \<Rightarrow> Inl e
                    | Inr (key, s2) \<Rightarrow>
                        if done' s2 \<or> cur s2 \<noteq> Some COLON then throw ExpectedColonInlineDict s2
                        else
                          (case assertSpace ''in inline dict'' (advance 1 s2) of
                             Inl e \<Rightarrow> Inl e
                           | Inr (u, s3) \<Rightarrow>
                               mapValue (setProperty result key) (parseValue 0 s3)))
                 else mapValue (push result) (parseValue 0 s1))
              of
                Inl e \<Rightarrow> Inl e
              | Inr (result', s4) \<Rightarrow>
                  if \<not> done' s4 \<and> cur s4 = Some SP then
                    (let nextPos = nextPos_loop s4 (pos s4 + 1) in
                     if nextPos < length (data s4) \<and> charAt s4 nextPos = Some COMMA
                     then parseInlineVectorContents_loop n type result' False (skipSpaces s4)
                     else mapValue (\<lambda>u. result') (consumeLine s4))
                  else parseInlineVectorContents_loop n type result' False s4))
      else mapValue (\<lambda>u. result) (consumeLine s))"

definition parseInlineVectorContents :: "nat \<Rightarrow> TYPES \<Rightarrow> pstate \<Rightarrow> jsvalue result" where
  "parseInlineVectorContents n type s =
     parseInlineVectorContents_loop n type
       (if type = INLINE_DICT then JObject False [] else JArray []) True s"

definition parseInlineVector :: "nat \<Rightarrow> pstate \<Rightarrow> jsvalue result" where
  "parseInlineVector n s =
     (if peekString (js ''[]'') s then mapValue (\<lambda>u. JArray []) (consumeLine (advance 2 s))
      else if peekString (js ''{}'') s then mapValue (\<lambda>u. JObject False []) (consumeLine (advance 2 s))
      else
        (case hasInlineDict s of
           (b, s') \<Rightarrow>
             if b then parseInlineVectorContents n INLINE_DICT s'
             else parseInlineVectorContents n INLINE_LIST s'))"

section \<open>Multiline vectors\<close>

datatype vecType = VecList | VecDict

definition getMultilineVectorType :: "nat \<Rightarrow> pstate \<Rightarrow> vecType result" where
  "getMultilineVectorType indent s =
     (case skipBlankLines s of
        Inl e \<Rightarrow> Inl e
      | Inr (u, s1) \<Rightarrow>
          if done' s1 then throw AmbiguousEmptyVector s1
          else
            let curIndent = getCurIndent s1 in
            if curIndent < indent then throw AmbiguousEmptyVector s1
            else Inr (if cur s1 = Some MINUS then VecList else VecDict, s1))"

definition keyIn :: "jsstring \<Rightarrow> jsvalue \<Rightarrow> bool" where
  "keyIn key obj =
     (case obj of JObject nullProto props \<Rightarrow> hasProperty nullProto props key | _ \<Rightarrow> False)"

text \<open>
  \<open>parseMultilineDict\<close> and \<open>parseMultilineList\<close> are the loops over the lines of one
  collection, with the collection built so far as \<open>out\<close>; \<open>parseVector\<close> is what
  follows a \<open>::\<close> indicator.
\<close>

fun parseMultilineDict_loop :: "nat \<Rightarrow> nat \<Rightarrow> jsvalue \<Rightarrow> pstate \<Rightarrow> jsvalue result"
  and parseMultilineList_loop :: "nat \<Rightarrow> nat \<Rightarrow> jsvalue \<Rightarrow> pstate \<Rightarrow> jsvalue result"
  and parseVector :: "nat \<Rightarrow> nat \<Rightarrow> pstate \<Rightarrow> jsvalue result" where
  "parseMultilineDict_loop 0 indent out s = throw OutOfFuel s"
| "parseMultilineDict_loop (Suc n) indent out s =
     (case skipBlankLines s of
        Inl e \<Rightarrow> Inl e
      | Inr (u, s1) \<Rightarrow>
          if done' s1 then Inr (out, s1)
          else
            let curIndent = getCurIndent s1 in
            if curIndent < indent then Inr (out, s1)
            else if curIndent \<noteq> indent then throw (BadIndent curIndent indent) s1
            else if \<not> isKeyStart s1 then throw (ExpectedKey (cur s1)) s1
            else
              (case parseKey s1 of
                 Inl e \<Rightarrow> Inl e
               | Inr (key, s2) \<Rightarrow>
                   if keyIn key out then throw (DuplicateKey key) s2
                   else
                     (case parseIndicator s2 of
                        Inl e \<Rightarrow> Inl e
                      | Inr (indicator, s3) \<Rightarrow>
                          (case
                             (if indicator = Colon then
                                (case assertSpace ''after :'' s3 of
                                   Inl e \<Rightarrow> Inl e
                                 | Inr (u, s4) \<Rightarrow>
                                     let isMultiline =
                                           (peekString (js ''```'') s4 \<or> peekString (js ''\"\"\"'') s4)
                                     in
                                     (case parseValue curIndent s4 of
                                        Inl e \<Rightarrow> Inl e
                                      | Inr (val, s5) \<Rightarrow>
                                          if \<not> isMultiline then mapValue (\<lambda>u. val) (consumeLine s5)
                                          else Inr (val, s5)))
                              else parseVector n (curIndent + 2) s3)
                           of
                             Inl e \<Rightarrow> Inl e
                           | Inr (val, s6) \<Rightarrow>
                               parseMultilineDict_loop n indent (setProperty out key val) s6))))"
| "parseMultilineList_loop 0 indent out s = throw OutOfFuel s"
| "parseMultilineList_loop (Suc n) indent out s =
     (case skipBlankLines s of
        Inl e \<Rightarrow> Inl e
      | Inr (u, s1) \<Rightarrow>
          if done' s1 then Inr (out, s1)
          else
            let curIndent = getCurIndent s1 in
            if curIndent < indent then Inr (out, s1)
            else if curIndent \<noteq> indent then throw (BadIndent curIndent indent) s1
            else if cur s1 \<noteq> Some MINUS then Inr (out, s1)
            else
              (case assertSpace ''after -'' (advance 1 s1) of
                 Inl e \<Rightarrow> Inl e
               | Inr (u, s2) \<Rightarrow>
                   (case
                      (if peekString (js ''::'') s2 then parseVector n (curIndent + 2) (advance 2 s2)
                       else
                         (case parseValue curIndent s2 of
                            Inl e \<Rightarrow> Inl e
                          | Inr (val, s3) \<Rightarrow> mapValue (\<lambda>u. val) (consumeLine s3)))
                    of
                      Inl e \<Rightarrow> Inl e
                    | Inr (val, s4) \<Rightarrow> parseMultilineList_loop n indent (push out val) s4)))"
| "parseVector n indent s =
     (let startPos = pos s; s1 = skipSpaces s in
      if done' s1 \<or> cur s1 = Some NL \<or> cur s1 = Some HASH then
        (case consumeLine (s1\<lparr>pos := startPos\<rparr>) of
           Inl e \<Rightarrow> Inl e
         | Inr (u, s2) \<Rightarrow>
             (case getMultilineVectorType indent s2 of
                Inl e \<Rightarrow> Inl e
              | Inr (vecType, s3) \<Rightarrow>
                  let nextIndent = getCurIndent s3 in
                  if vecType = VecList then parseMultilineList_loop n nextIndent (JArray []) s3
                  else parseMultilineDict_loop n nextIndent (JObject False []) s3))
      else
        (case assertSpace ''after ::'' (s1\<lparr>pos := startPos\<rparr>) of
           Inl e \<Rightarrow> Inl e
         | Inr (u, s2) \<Rightarrow> parseInlineVector n s2))"

declare parseMultilineDict_loop.simps [simp del]
declare parseMultilineList_loop.simps [simp del]
declare parseVector.simps [simp del]
declare parseInlineVectorContents_loop.simps [simp del]

definition parseMultilineDict :: "nat \<Rightarrow> nat \<Rightarrow> pstate \<Rightarrow> jsvalue result" where
  "parseMultilineDict n indent s = parseMultilineDict_loop n indent (JObject False []) s"

definition parseMultilineList :: "nat \<Rightarrow> nat \<Rightarrow> pstate \<Rightarrow> jsvalue result" where
  "parseMultilineList n indent s = parseMultilineList_loop n indent (JArray []) s"

section \<open>The document\<close>

definition getRootType :: "pstate \<Rightarrow> TYPES \<times> pstate" where
  "getRootType s =
     (case hasKeyValuePair s of
        (kv, s1) \<Rightarrow>
          if kv then
            (case hasInlineDictAtRoot s1 of
               (b, s2) \<Rightarrow> (if b then INLINE_DICT else MULTILINE_DICT, s2))
          else if peekString (js ''[]'') s1 then (EMPTY_LIST, s1)
          else if peekString (js ''{}'') s1 then (EMPTY_DICT, s1)
          else if peekChar s1 (pos s1) = MINUS then (MULTILINE_LIST, s1)
          else
            (case hasInlineListAtRoot s1 of
               (b, s2) \<Rightarrow> (if b then INLINE_LIST else SCALAR, s2)))"

definition assertRootEnd :: "string \<Rightarrow> jsvalue result \<Rightarrow> jsvalue result" where
  "assertRootEnd description r =
     (case r of
        Inl e \<Rightarrow> Inl e
      | Inr (val, s) \<Rightarrow>
          (case skipBlankLines s of
             Inl e \<Rightarrow> Inl e
           | Inr (u, s1) \<Rightarrow>
               if \<not> done' s1 then throw (ContentAfterRoot description) s1 else Inr (val, s1)))"

function version_loop :: "pstate \<Rightarrow> pstate" where
  "version_loop s =
     (if \<not> done' s \<and> cur s \<noteq> Some SP \<and> cur s \<noteq> Some NL \<and> cur s \<noteq> Some HASH
      then version_loop (s\<lparr>pos := pos s + 1\<rparr>) else s)"
  by pat_completeness auto
termination
  by (relation "measure (\<lambda>s. length (data s) - pos s)") (auto simp: done'_def)

declare version_loop.simps [simp del]

text \<open>The optional version line \<open>%HUML v0.1.0\<close> at the head of \<open>Parser.parse\<close>.\<close>

definition parse_version :: "pstate \<Rightarrow> unit result" where
  "parse_version s =
     (if peekString (js ''%HUML'') s then
        (let s1 = advance 5 s in
         case
           (if \<not> done' s1 \<and> cur s1 = Some SP then
              (let s2 = advance 1 s1; start = pos s2; s3 = version_loop s2;
                   version = substring (data s3) start (pos s3)
               in if pos s3 > start \<and> version \<noteq> js ''v0.1.0''
                  then throw (UnsupportedVersion version) s3 else Inr ((), s3))
            else Inr ((), s1))
         of
           Inl e \<Rightarrow> Inl e
         | Inr (u, s4) \<Rightarrow> consumeLine s4)
      else Inr ((), s))"

text \<open>The handler of each root type in \<open>Parser.parse\<close>.\<close>

definition typeHandlers :: "nat \<Rightarrow> TYPES \<Rightarrow> pstate \<Rightarrow> jsvalue result" where
  "typeHandlers n rootType s =
     (case rootType of
        INLINE_DICT \<Rightarrow> assertRootEnd ''root inline dict'' (parseInlineVectorContents n INLINE_DICT s)
      | MULTILINE_DICT \<Rightarrow> parseMultilineDict n 0 s
      | EMPTY_LIST \<Rightarrow>
          assertRootEnd ''root list'' (mapValue (\<lambda>u. JArray []) (consumeLine (advance 2 s)))
      | EMPTY_DICT \<Rightarrow>
          assertRootEnd ''root dict'' (mapValue (\<lambda>u. JObject False []) (consumeLine (advance 2 s)))
      | MULTILINE_LIST \<Rightarrow> parseMultilineList n 0 s
      | INLINE_LIST \<Rightarrow> assertRootEnd ''root inline list'' (parseInlineVectorContents n INLINE_LIST s)
      | SCALAR \<Rightarrow>
          assertRootEnd ''root scalar value''
            (case parseValue 0 s of
               Inl e \<Rightarrow> Inl e
             | Inr (val, s1) \<Rightarrow> mapValue (\<lambda>u. val) (consumeLine s1)))"

definition Parser_parse :: "nat \<Rightarrow> pstate \<Rightarrow> jsvalue result" where
  "Parser_parse n s0 =
     (if length (data s0) = 0 then throw EmptyDocument s0
      else
        (case parse_version s0 of
           Inl e \<Rightarrow> Inl e
         | Inr (u, s1) \<Rightarrow>
             (case skipBlankLines s1 of
                Inl e \<Rightarrow> Inl e
              | Inr (u, s) \<Rightarrow>
                  if done' s then throw EmptyDoc s
                  else if getCurIndent s \<noteq> 0 then throw RootIndented s
                  else if peekString (js ''::'') s then throw RootDoubleColon s
                  else
                    (case (if peekString (js '':'') s then hasKeyValuePair s else (True, s)) of
                       (kv, s2) \<Rightarrow>
                         if \<not> kv then throw RootColon s2
                         else
                           (case getRootType s2 of
                              (rootType, s3) \<Rightarrow> typeHandlers n rootType s3)))))"

text \<open>
  What \<open>parse\<close> throws: a \<open>ParseError\<close> (named \<open>HUMLError\<close>) with its message and line, or
  the plain \<open>Error\<close> for a text of length 0.
\<close>

datatype exn = HUMLError message nat | Error message

definition parse :: "jsstring \<Rightarrow> exn + jsvalue" where
  "parse text =
     (case Parser_parse (length text + 1) \<lparr>data = text, pos = 0, line = 1\<rparr> of
        Inl (m, s) \<Rightarrow> Inl (if m = EmptyDocument then Error m else HUMLError m (line s))
      | Inr (val, s) \<Rightarrow> Inr val)"

section \<open>The encoder\<close>

text \<open>
  Two functions of the JavaScript host are parameters of the encoder:
  \<open>a.localeCompare(b)\<close>, the collation of the host's locale, and \<open>String(num)\<close> for a
  number whose double the model does not compute.
\<close>

record host =
  localeCompare :: "jsstring \<Rightarrow> jsstring \<Rightarrow> int"
  Number_toString :: "number \<Rightarrow> jsstring"

datatype encode_error = RangeError

text \<open>\<open>' '.repeat(n)\<close> throws a \<open>RangeError\<close> for a negative count.\<close>

definition repeat :: "jschar \<Rightarrow> int \<Rightarrow> jsstring option" where
  "repeat c n = (if n < 0 then None else Some (replicate (nat n) c))"

text \<open>
  \<open>lines[lines.length - 1] += x\<close>. On an empty array this sets the property \<open>-1\<close>,
  which is no element of the array: \<open>join\<close> never sees it.
\<close>

definition appendLast :: "jsstring list \<Rightarrow> jsstring \<Rightarrow> jsstring list" where
  "appendLast lines x = (if lines = [] then [] else butlast lines @ [last lines @ x])"

fun decimal :: "nat \<Rightarrow> jsstring" where
  "decimal n = (if n < 10 then [ch CHR ''0'' + n] else decimal (n div 10) @ [ch CHR ''0'' + n mod 10])"

declare decimal.simps [simp del]

definition formatNumber :: "host \<Rightarrow> number \<Rightarrow> jsstring" where
  "formatNumber h num =
     (case num of
        NaN \<Rightarrow> js ''nan''
      | PosInfinity \<Rightarrow> js ''inf''
      | NegInfinity \<Rightarrow> js ''-inf''
      | Integer i \<Rightarrow>
          if \<bar>i\<bar> \<le> 9007199254740992
          then (if i < 0 then [MINUS] else []) @ decimal (nat \<bar>i\<bar>)
          else Number_toString h num
      | Double str \<Rightarrow> Number_toString h num)"

text \<open>
  \<open>JSON.stringify(str)\<close>: quotes, with the short escapes, \<open>\u00xx\<close> for the other control
  characters and \<open>\udxxx\<close> for a surrogate that has no partner.
\<close>

definition hexDigit :: "nat \<Rightarrow> jschar" where
  "hexDigit d = (if d < 10 then ch CHR ''0'' + d else ch CHR ''a'' + (d - 10))"

definition unicodeEscape :: "jschar \<Rightarrow> jsstring" where
  "unicodeEscape c =
     [BACKSLASH, ch CHR ''u'', hexDigit (c div 4096 mod 16), hexDigit (c div 256 mod 16),
      hexDigit (c div 16 mod 16), hexDigit (c mod 16)]"

definition isHighSurrogate :: "jschar \<Rightarrow> bool" where
  "isHighSurrogate c \<longleftrightarrow> 55296 \<le> c \<and> c \<le> 56319"

definition isLowSurrogate :: "jschar \<Rightarrow> bool" where
  "isLowSurrogate c \<longleftrightarrow> 56320 \<le> c \<and> c \<le> 57343"

definition quoteChar :: "jschar \<Rightarrow> jsstring" where
  "quoteChar c =
     (if c = QUOTE then [BACKSLASH, QUOTE]
      else if c = BACKSLASH then [BACKSLASH, BACKSLASH]
      else if c = 8 then [BACKSLASH, ch CHR ''b'']
      else if c = 12 then [BACKSLASH, ch CHR ''f'']
      else if c = NL then [BACKSLASH, ch CHR ''n'']
      else if c = 13 then [BACKSLASH, ch CHR ''r'']
      else if c = 9 then [BACKSLASH, ch CHR ''t'']
      else if c < 32 \<or> isHighSurrogate c \<or> isLowSurrogate c then unicodeEscape c
      else [c])"

fun quoteJSON :: "jsstring \<Rightarrow> jsstring" where
  "quoteJSON [] = []"
| "quoteJSON [c] = quoteChar c"
| "quoteJSON (c # d # cs) =
     (if isHighSurrogate c \<and> isLowSurrogate d then c # d # quoteJSON cs
      else quoteChar c @ quoteJSON (d # cs))"

definition JSON_stringify :: "jsstring \<Rightarrow> jsstring" where
  "JSON_stringify str = [QUOTE] @ quoteJSON str @ [QUOTE]"

definition BARE_KEY_REGEX_test :: "jsstring \<Rightarrow> bool" where
  "BARE_KEY_REGEX_test key =
     (case key of
        [] \<Rightarrow> False
      | c # cs \<Rightarrow> isAlpha c \<and> list_all (\<lambda>c. isAlphaNum c \<or> c = UNDERSCORE \<or> c = MINUS) cs)"

definition quoteKey :: "jsstring \<Rightarrow> jsstring" where
  "quoteKey key = (if BARE_KEY_REGEX_test key then key else JSON_stringify key)"

text \<open>
  \<open>value.constructor === Object\<close>: an own property \<open>constructor\<close> hides the inherited
  one, and an object without prototype inherits none.
\<close>

definition isVector :: "jsvalue \<Rightarrow> bool" where
  "isVector v =
     (case v of
        JArray xs \<Rightarrow> True
      | JObject nullProto props \<Rightarrow> js ''constructor'' \<notin> set (map fst props) \<and> \<not> nullProto
      | _ \<Rightarrow> False)"

definition isEmptyVector :: "jsvalue \<Rightarrow> bool" where
  "isEmptyVector v =
     (case v of JArray xs \<Rightarrow> xs = [] | JObject nullProto props \<Rightarrow> props = [] | _ \<Rightarrow> False)"

text \<open>
  \<open>Object.entries(obj)\<close>: the properties whose key is an array index (the decimal
  numeral of an integer below \<open>2^32 - 1\<close>) in ascending order, then the others in
  creation order.
\<close>

definition isArrayIndex :: "jsstring \<Rightarrow> bool" where
  "isArrayIndex key \<longleftrightarrow>
     key \<noteq> [] \<and> list_all isDigit key \<and> (key = js ''0'' \<or> take 1 key \<noteq> js ''0'')
     \<and> digitsValue 10 key < 4294967295"

fun insertBy :: "('a \<Rightarrow> 'a \<Rightarrow> int) \<Rightarrow> ('a \<times> 'b) \<Rightarrow> ('a \<times> 'b) list \<Rightarrow> ('a \<times> 'b) list" where
  "insertBy cmp x [] = [x]"
| "insertBy cmp x (y # ys) =
     (if cmp (fst x) (fst y) \<le> 0 then x # y # ys else y # insertBy cmp x ys)"

text \<open>
  \<open>entries.sort(cmp)\<close> on the keys. The sort of JavaScript is stable; for a comparison
  that orders the keys consistently its result is that of this insertion sort.
\<close>

definition sortBy :: "('a \<Rightarrow> 'a \<Rightarrow> int) \<Rightarrow> ('a \<times> 'b) list \<Rightarrow> ('a \<times> 'b) list" where
  "sortBy cmp xs = foldr (insertBy cmp) xs []"

definition Object_entries :: "(jsstring \<times> jsvalue) list \<Rightarrow> (jsstring \<times> jsvalue) list" where
  "Object_entries props =
     sortBy (\<lambda>a b. int (digitsValue 10 a) - int (digitsValue 10 b))
       (filter (\<lambda>e. isArrayIndex (fst e)) props)
     @ filter (\<lambda>e. \<not> isArrayIndex (fst e)) props"

lemma size_list_insertBy:
  "size_list f (insertBy cmp x ys) = size_list f (x # ys)"
  by (induction ys) auto

lemma size_list_sortBy: "size_list f (sortBy cmp xs) = size_list f xs"
  unfolding sortBy_def by (induction xs) (auto simp: size_list_insertBy)

lemma size_list_filter_partition:
  "size_list f (filter P xs) + size_list f (filter (\<lambda>x. \<not> P x) xs) = size_list f xs"
  by (induction xs) auto

lemma size_list_Object_entries: "size_list f (Object_entries props) = size_list f props"
  unfolding Object_entries_def
  using size_list_filter_partition [of f "\<lambda>e. isArrayIndex (fst e)" props]
  by (simp add: size_list_sortBy)

text \<open>\<open>toString\<close>: a string with a line break becomes a block between backticks.\<close>

definition toString :: "jsstring \<Rightarrow> int \<Rightarrow> jsstring list \<Rightarrow> encode_error + jsstring list" where
  "toString str indent lines =
     (if NL \<in> set str then
        (let keyIndent = indent - 2; contentIndent = indent;
             lines1 = appendLast lines (js ''```'');
             strLines0 = split NL str;
             strLines = (if last strLines0 = [] then butlast strLines0 else strLines0)
         in
         case repeat SP contentIndent of
           None \<Rightarrow> (if strLines = [] then
                      (case repeat SP keyIndent of
                         None \<Rightarrow> Inl RangeError
                       | Some k \<Rightarrow> Inr (lines1 @ [k @ js ''```'']))
                    else Inl RangeError)
         | Some c \<Rightarrow>
             (case repeat SP keyIndent of
                None \<Rightarrow> Inl RangeError
              | Some k \<Rightarrow> Inr (lines1 @ map (\<lambda>l. c @ l) strLines @ [k @ js ''```''])))
      else Inr (appendLast lines (JSON_stringify str)))"

text \<open>
  \<open>toValue\<close>, with the \<open>forEach\<close> loops of \<open>toArray\<close> and \<open>toObject\<close> and
  \<open>writeKeyValuePair\<close>.
\<close>

function toValue :: "host \<Rightarrow> jsvalue \<Rightarrow> int \<Rightarrow> jsstring list \<Rightarrow> bool \<Rightarrow> encode_error + jsstring list"
  and toArray_forEach :: "host \<Rightarrow> jsvalue list \<Rightarrow> int \<Rightarrow> jsstring list \<Rightarrow> encode_error + jsstring list"
  and toObject_forEach :: "host \<Rightarrow> (jsstring \<times> jsvalue) list \<Rightarrow> int \<Rightarrow> jsstring list \<Rightarrow> encode_error + jsstring list"
  and writeKeyValuePair :: "host \<Rightarrow> jsstring \<Rightarrow> jsvalue \<Rightarrow> int \<Rightarrow> jsstring list \<Rightarrow> encode_error + jsstring list"
  where
  "toValue h JNull indent lines isRootLevel = Inr (appendLast lines (js ''null''))"
| "toValue h (JBool b) indent lines isRootLevel =
     Inr (appendLast lines (if b then js ''true'' else js ''false''))"
| "toValue h (JNumber num) indent lines isRootLevel = Inr (appendLast lines (formatNumber h num))"
| "toValue h (JString str) indent lines isRootLevel = toString str indent lines"
| "toValue h (JArray arr) indent lines isRootLevel =
     (if arr = [] then Inr (appendLast lines (js ''[]''))
      else toArray_forEach h arr (if isRootLevel then 0 else indent) lines)"
| "toValue h (JObject nullProto props) indent lines isRootLevel =
     (if Object_entries props = [] then Inr (appendLast lines (js ''{}''))
      else toObject_forEach h (sortBy (localeCompare h) (Object_entries props))
             (if isRootLevel then 0 else indent) lines)"
| "toArray_forEach h [] itemIndent lines = Inr lines"
| "toArray_forEach h (item # rest) itemIndent lines =
     (case repeat SP itemIndent of
        None \<Rightarrow> Inl RangeError
      | Some sp \<Rightarrow>
          (case
             (if isVector item
              then toValue h item (itemIndent + 2)
                     (appendLast (lines @ [sp @ js ''- '']) (js ''::'')) False
              else toValue h item itemIndent (lines @ [sp @ js ''- '']) False)
           of
             Inl e \<Rightarrow> Inl e
           | Inr lines' \<Rightarrow> toArray_forEach h rest itemIndent lines'))"
| "toObject_forEach h [] keyIndent lines = Inr lines"
| "toObject_forEach h ((key, v) # rest) keyIndent lines =
     (case writeKeyValuePair h key v keyIndent lines of
        Inl e \<Rightarrow> Inl e
      | Inr lines' \<Rightarrow> toObject_forEach h rest keyIndent lines')"
| "writeKeyValuePair h key v indent lines =
     (case repeat SP indent of
        None \<Rightarrow> Inl RangeError
      | Some sp \<Rightarrow>
          (let lines1 = lines @ [sp @ quoteKey key];
               isVec = isVector v; isEmpty = isEmptyVector v;
               lines2 = (if isVec then appendLast lines1 (if isEmpty then js '':: '' else js ''::'')
                         else appendLast lines1 (js '': ''))
           in toValue h v (indent + 2) lines2 False))"
  by pat_completeness auto
termination
  by (relation "measure (\<lambda>x. case x of
        Inl (Inl (h, v, i, l, r)) \<Rightarrow> 2 * size v
      | Inl (Inr (h, arr, i, l)) \<Rightarrow> 2 * size_list size arr
      | Inr (Inl (h, es, i, l)) \<Rightarrow> 2 * size_list (size_prod (\<lambda>x. 0) size) es
      | Inr (Inr (h, k, v, i, l)) \<Rightarrow> 2 * size v + 1)")
    (auto simp: size_list_sortBy size_list_Object_entries)

definition stringify :: "host \<Rightarrow> jsvalue \<Rightarrow> bool \<Rightarrow> encode_error + jsstring" where
  "stringify h obj includeVersion =
     (let lines = (if includeVersion then [js ''%HUML v0.1.0'', []] else []) in
      case toValue h obj 0 lines True of
        Inl e \<Rightarrow> Inl e
      | Inr lines' \<Rightarrow> Inr (join [NL] (lines' @ [[]])))"




section \<open>What the scanning functions leave unchanged\<close>

text \<open>
  \<open>keeps d l r\<close>: the state of the result \<open>r\<close>, thrown or returned, still has the text
  \<open>d\<close> and the line counter \<open>l\<close>.
\<close>

definition keeps :: "jsstring \<Rightarrow> nat \<Rightarrow> 'a result \<Rightarrow> bool" where
  "keeps d l r =
     (case r of
        Inl (m, s') \<Rightarrow> data s' = d \<and> line s' = l
      | Inr (x, s') \<Rightarrow> data s' = d \<and> line s' = l)"

lemma keeps_throw [simp]: "keeps d l (throw m s') \<longleftrightarrow> data s' = d \<and> line s' = l"
  by (simp add: keeps_def throw_def)

lemma keeps_Inr [simp]: "keeps d l (Inr (x, s')) \<longleftrightarrow> data s' = d \<and> line s' = l"
  by (simp add: keeps_def)

lemma keeps_Inl [simp]: "keeps d l (Inl (m, s')) \<longleftrightarrow> data s' = d \<and> line s' = l"
  by (simp add: keeps_def)

lemma advance_frame [simp]: "data (advance n s) = data s" "line (advance n s) = line s"
  by (simp_all add: advance_def)

lemma parseKey_loop_frame:
  "data (parseKey_loop s) = data s \<and> line (parseKey_loop s) = line s"
proof (induction s rule: parseKey_loop.induct)
  case (1 s)
  show ?case
    by (subst (1 2) parseKey_loop.simps) (use 1 in auto)
qed

lemma parseString_loop_frame: "keeps (data s) (line s) (parseString_loop res s)"
proof (induction res s rule: parseString_loop.induct)
  case (1 result s)
  show ?case
    by (subst parseString_loop.simps) (use 1 in \<open>simp add: Let_def split: option.split\<close>)
qed

lemma parseKey_frame: "keeps (data s) (line s) (parseKey s)"
  using parseString_loop_frame [of "advance 1 (skipSpaces s)" "[]"]
    parseKey_loop_frame [of "skipSpaces s"] skipSpaces_frame [of s]
  by (simp add: parseKey_def parseString_def Let_def)

lemma restore_pos: "data s' = data s \<Longrightarrow> line s' = line s \<Longrightarrow> s'\<lparr>pos := pos s\<rparr> = (s :: pstate)"
  by (cases s, cases s') simp


text \<open>
  C9 (lookahead). Each of \<open>hasKeyValuePair\<close>, \<open>hasInlineDict\<close>, \<open>hasInlineListAtRoot\<close>
  and \<open>hasInlineDictAtRoot\<close> leaves the parser's state, offset and line counter, as it
  found it: whether the key that \<open>hasKeyValuePair\<close> tries is followed by a colon, is
  not, or \<open>parseKey\<close> throws. The other three only read the text.
\<close>

theorem lookahead_leaves_state:
  "snd (hasKeyValuePair s) = s \<and> snd (hasInlineDict s) = s
   \<and> snd (hasInlineListAtRoot s) = s \<and> snd (hasInlineDictAtRoot s) = s"
proof -
  have "snd (hasKeyValuePair s) = s"
    using parseKey_frame [of s]
    by (auto simp: hasKeyValuePair_def Let_def keeps_def restore_pos split: sum.splits)
  moreover have "snd (hasInlineDict s) = s"
    by (simp add: hasInlineDict_def)
  moreover have "snd (hasInlineListAtRoot s) = s"
    by (simp add: hasInlineListAtRoot_def Let_def)
  moreover have "snd (hasInlineDictAtRoot s) = s"
    by (simp add: hasInlineDictAtRoot_def Let_def)
  ultimately show ?thesis by simp
qed

text \<open>
  C10 (keys that \<open>Object.prototype\<close> has). \<open>parseMultilineDict\<close> tests \<open>key in out\<close> on a
  plain object, which also finds the inherited properties: at any entry of a multiline
  dict, whatever the dict holds so far, a key such as \<open>constructor\<close>, \<open>toString\<close> or
  \<open>__proto__\<close> is thrown as a duplicate key, at the line of the entry.
\<close>

theorem prototype_key_is_reported_duplicate:
  assumes "skipBlankLines s = Inr ((), s1)" and "\<not> done' s1" and "getCurIndent s1 = indent"
    and "isKeyStart s1" and "parseKey s1 = Inr (key, s2)"
    and "key \<in> set Object_prototype_keys"
  shows "parseMultilineDict_loop (Suc n) indent (JObject False props) s
           = Inl (DuplicateKey key, s2) \<and> line s2 = line s1"
proof -
  have "keyIn key (JObject False props)"
    using assms(6) by (simp add: keyIn_def hasProperty_def)
  moreover have "line s2 = line s1"
    using parseKey_frame [of s1] assms(5) by (simp add: keeps_def)
  ultimately show ?thesis
    using assms(1-5) by (simp add: parseMultilineDict_loop.simps throw_def)
qed

theorem prototype_key_is_reported_duplicate_witness:
  "parseMultilineDict_loop (Suc 14) 0 (JObject False [])
       \<lparr>data = js ''constructor: 1'', pos = 0, line = 1\<rparr>
     = Inl (DuplicateKey (js ''constructor''), \<lparr>data = js ''constructor: 1'', pos = 11, line = 1\<rparr>)
   \<and> parse (js ''constructor: 1'') = Inl (HUMLError (DuplicateKey (js ''constructor'')) 1)
   \<and> parse (js ''a: 1\<newline>toString: 2'') = Inl (HUMLError (DuplicateKey (js ''toString'')) 2)
   \<and> parse (js ''\"__proto__\": 1'') = Inl (HUMLError (DuplicateKey (js ''__proto__'')) 1)"
proof -
  let ?s = "\<lparr>data = js ''constructor: 1'', pos = 0, line = 1\<rparr>"
  have 1: "skipBlankLines ?s = Inr ((), ?s)" by code_simp
  have 2: "\<not> done' ?s" by code_simp
  have 3: "getCurIndent ?s = 0" by code_simp
  have 4: "isKeyStart ?s" by code_simp
  have 5: "parseKey ?s = Inr (js ''constructor'', \<lparr>data = js ''constructor: 1'', pos = 11, line = 1\<rparr>)"
    by code_simp
  have 6: "js ''constructor'' \<in> set Object_prototype_keys" by code_simp
  have 7: "parse (js ''constructor: 1'') = Inl (HUMLError (DuplicateKey (js ''constructor'')) 1)
   \<and> parse (js ''a: 1\<newline>toString: 2'') = Inl (HUMLError (DuplicateKey (js ''toString'')) 2)
   \<and> parse (js ''\"__proto__\": 1'') = Inl (HUMLError (DuplicateKey (js ''__proto__'')) 1)"
    by code_simp
  from prototype_key_is_reported_duplicate [OF 1 2 3 4 5 6, of 14 "[]"] 7 show ?thesis by simp
qed

section \<open>Searching the text\<close>








section \<open>Trailing spaces\<close>






text \<open>
  Three line ends that no check reaches: a comment on a last line that no line break
  ends (\<open>slice\<close> with the end \<open>-1\<close> drops its last character), what follows a root
  list (\<open>parseMultilineList\<close> returns at a line that is no item and \<open>parse\<close> does not
  look further), and a line break among the four characters of a \<open>\u\<close> escape.
\<close>

lemma line_ends_that_are_not_checked:
  "parse (js ''a: 1 # c '') = Inr (JObject False [(js ''a'', JNumber (Integer 1))])
   \<and> parse (js ''- 1\<newline>x \<newline>'') = Inr (JArray [JNumber (Integer 1)])
   \<and> parse (js ''\"'' @ [BACKSLASH] @ js ''u1 \<newline>2\"'') = Inr (JString [1])"
  by code_simp

section \<open>The order of the keys that the encoder writes\<close>














section \<open>The decoder and the encoder on concrete documents\<close>

text \<open>
  C1 (round trip). The claim: for every value \<open>v\<close> that the decoder can produce,
  decoding the encoding of \<open>v\<close> succeeds and gives \<open>v\<close> back. The list holding one
  empty list is decoder output (of \<open>- :: []\<close>), but \<open>toArray\<close> writes it as \<open>- ::[]\<close>,
  without the space that \<open>writeKeyValuePair\<close> puts before an empty collection, and the
  decoder rejects that text.
\<close>

theorem roundtrip_fails_on_nested_empty_list:
  "parse (js ''- :: []\<newline>'') = Inr (JArray [JArray []])
   \<and> stringify h (JArray [JArray []]) False = Inr (js ''- ::[]\<newline>'')
   \<and> parse (js ''- ::[]\<newline>'') = Inl (HUMLError (ExpectedSingleSpace ''after ::'') 1)"
  by code_simp

text \<open>
  C2 (indentation of a multiline continuation). The claim: after \<open>key::\<close> at indent
  \<open>i\<close> the first line of the continuation must sit at indent \<open>i + 2\<close>, and a deeper one
  is rejected. \<open>parseVector\<close> only rejects a smaller indent and then takes the indent it
  finds: a continuation at indent 6 under a key at indent 0 is accepted.
\<close>

theorem deeper_continuation_is_accepted:
  "parse (js ''a::\<newline>      b: 1\<newline>'')
     = Inr (JObject False [(js ''a'', JObject False [(js ''b'', JNumber (Integer 1))])])
   \<and> parse (js ''a::\<newline>  b: 1\<newline>'')
     = Inr (JObject False [(js ''a'', JObject False [(js ''b'', JNumber (Integer 1))])])
   \<and> parse (js ''a::\<newline> b: 1\<newline>'') = Inl (HUMLError AmbiguousEmptyVector 2)"
  by code_simp

text \<open>
  C3 (duplicate keys). The claim: a key repeated in one dict, multiline or inline, is a
  duplicate-key error at its second occurrence. The multiline dict does that; the inline
  dict assigns \<open>result[key]\<close> without a test, so the second value replaces the first.
\<close>

theorem inline_dict_overwrites_duplicate_key:
  "parse (js ''a: 1\<newline>a: 2'') = Inl (HUMLError (DuplicateKey (js ''a'')) 2)
   \<and> parse (js ''a: 1, a: 2'') = Inr (JObject False [(js ''a'', JNumber (Integer 2))])
   \<and> parse (js ''k:: a: 1, a: 2'')
       = Inr (JObject False [(js ''k'', JObject False [(js ''a'', JNumber (Integer 2))])])"
  by code_simp

text \<open>
  C4 (inline dict or inline list). The claim: after \<open>::\<close> only the rest of the current
  line decides between dict and list, so \<open>key:: 1, 2, 3\<close> is the list whatever follows.
  The callback of \<open>some\<close> in \<open>hasInlineDict\<close> answers \<open>false\<close> at a line break, which
  does not end the scan: a colon on a later line makes the line an inline dict.
\<close>

theorem inline_list_decision_reads_later_lines:
  "parse (js ''key:: 1, 2, 3'')
     = Inr (JObject False
         [(js ''key'', JArray [JNumber (Integer 1), JNumber (Integer 2), JNumber (Integer 3)])])
   \<and> parse (js ''key:: 1, 2, 3\<newline>other: 1'') = Inl (HUMLError ExpectedColonInlineDict 1)"
  by code_simp

text \<open>
  C6 (literals with a base prefix). The claim: \<open>0xFF\<close>, \<open>0o17\<close>, \<open>0b101\<close> and \<open>-0x10\<close>
  decode to 255, 15, 5 and -16, a prefix without digit is an error, and underscores are
  allowed between the digits. The first two hold (\<open>base_prefixed_literals\<close>); but the
  digit loop of \<open>parseBase\<close> stops at an underscore, which the decimal loop of
  \<open>parseNumber\<close> accepts, so the underscore that \<open>parseBase\<close> would strip never reaches
  it and the rest of the literal is unexpected content.
\<close>

theorem base_prefixed_literal_rejects_underscore:
  "parse (js ''0xFF_FF'') = Inl (HUMLError UnexpectedContentAtEndOfLine 1)
   \<and> parse (js ''n: 0b1_0'') = Inl (HUMLError UnexpectedContentAtEndOfLine 1)
   \<and> parse (js ''1_000'') = Inr (JNumber (Integer 1000))"
  by code_simp

lemma base_prefixed_literals:
  "parse (js ''0xFF'') = Inr (JNumber (Integer 255))
   \<and> parse (js ''0o17'') = Inr (JNumber (Integer 15))
   \<and> parse (js ''0b101'') = Inr (JNumber (Integer 5))
   \<and> parse (js ''n: -0x10'') = Inr (JObject False [(js ''n'', JNumber (Integer (- 16)))])
   \<and> parse (js ''0x'') = Inl (HUMLError DigitsRequiredAfterPrefix 1)"
  by code_simp

text \<open>
  C8 (escapes of a quoted string). The claim: a \<open>\u\<close> escape whose four characters are
  not all hexadecimal digits is an error. \<open>parseString\<close> hands the four characters to
  \<open>parseInt\<close>, which converts the digits it finds at their head and ignores the rest:
  \<open>\u41zz\<close> is read as the code unit \<open>0x41\<close>.
\<close>

theorem unicode_escape_accepts_non_hex_digits:
  "parse (js ''\"'' @ [BACKSLASH] @ js ''u41zz\"'') = Inr (JString (js ''A''))
   \<and> parse (js ''\"'' @ [BACKSLASH] @ js ''uzz41\"'')
       = Inl (HUMLError (InvalidUnicodeEscape (js ''zz41'')) 1)"
  by code_simp

end
